theory Spec2Isabelle
  imports Complex_Main "HOL-Library.Char_ord" "HOL-Library.List_Lexorder" "HOL-Library.AList"
    "HOL-Library.Monad_Syntax"
begin

section \<open>JavaScript values and the host runtime\<close>

text \<open>
  The application keeps all its data in the browser's \<^verbatim>\<open>localStorage\<close> as JSON text and
  reads it back through \<^verbatim>\<open>JSON.parse\<close> and \<^verbatim>\<open>Storage.reviveDates\<close>. The values that travel
  through this layer are modelled by one datatype: the JSON values, plus \<open>VDate\<close> for a
  (valid) \<^verbatim>\<open>Date\<close> object, given by its time value in milliseconds since the epoch.
  A \<^verbatim>\<open>number\<close> is a real number: rounding of doubles, NaN and the infinities are not
  modelled (so a division is the code's only where the divisor is not 0). An object is the
  list of its own properties in enumeration order; the names are distinct in a value that
  comes from \<^verbatim>\<open>JSON.parse\<close>, and they are taken to be ordinary names (not \<^verbatim>\<open>__proto__\<close>, not
  array indices, which JavaScript enumerates first).
\<close>

datatype jsval =
    VNull
  | VBool bool
  | VNum real
  | VStr string
  | VDate int
  | VArr "jsval list"
  | VObj "(string \<times> jsval) list"

text \<open>
  What the code uses of the JavaScript engine's \<^verbatim>\<open>Date\<close>: \<open>Date_parse s\<close> is the time value of
  \<^verbatim>\<open>new Date(s)\<close>, \<open>None\<close> when that is an invalid date (\<^verbatim>\<open>isNaN(date.getTime())\<close>);
  \<open>toISOString t\<close> is the text of \<^verbatim>\<open>toISOString()\<close> for the date with time value \<open>t\<close>.
  Both are parameters: parsing depends on the engine and on the local time zone.
\<close>

record runtime =
  Date_parse :: "string \<Rightarrow> int option"
  toISOString :: "int \<Rightarrow> string"

text \<open>JavaScript's truthiness, as used by \<^verbatim>\<open>a || b\<close> and \<^verbatim>\<open>if (a)\<close>.\<close>

fun truthy :: "jsval \<Rightarrow> bool" where
  "truthy VNull = False"
| "truthy (VBool b) = b"
| "truthy (VNum x) = (x \<noteq> 0)"
| "truthy (VStr s) = (s \<noteq> [])"
| "truthy (VDate t) = True"
| "truthy (VArr xs) = True"
| "truthy (VObj kvs) = True"

definition or_else :: "jsval \<Rightarrow> jsval \<Rightarrow> jsval" where
  "or_else a b = (if truthy a then a else b)"

text \<open>
  Reading a property \<^verbatim>\<open>v.k\<close> of a value that is not \<^verbatim>\<open>null\<close>: \<open>None\<close> is \<^verbatim>\<open>undefined\<close>.
  Only own properties of objects are modelled (the names the code reads are not
  properties of arrays, strings, numbers, booleans or dates).
\<close>

fun getProp :: "jsval \<Rightarrow> string \<Rightarrow> jsval option" where
  "getProp (VObj kvs) k = map_of kvs k"
| "getProp _ k = None"

subsection \<open>JSON text\<close>

text \<open>
  A string is seen only through \<^verbatim>\<open>JSON.parse\<close>, so it is represented by what it parses to:
  \<open>JSON j\<close> is a text of the JSON document \<open>j\<close>, \<open>NotJSON\<close> any string that is not valid
  JSON (the empty string included). \<^verbatim>\<open>JSON.stringify\<close> writes a date as its ISO string;
  its output is a function of the document \<open>toJSON v\<close>, so two values serialise to the same
  bytes exactly when their documents are equal.
\<close>

datatype jsontext = NotJSON | JSON jsval

fun toJSON :: "runtime \<Rightarrow> jsval \<Rightarrow> jsval" where
  "toJSON R (VDate t) = VStr (toISOString R t)"
| "toJSON R (VArr xs) = VArr (map (toJSON R) xs)"
| "toJSON R (VObj kvs) = VObj (map (\<lambda>(k, v). (k, toJSON R v)) kvs)"
| "toJSON R v = v"

definition JSON_stringify :: "runtime \<Rightarrow> jsval \<Rightarrow> jsontext" where
  "JSON_stringify R v = JSON (toJSON R v)"

text \<open>\<open>None\<close>: \<^verbatim>\<open>JSON.parse\<close> throws a SyntaxError.\<close>

fun JSON_parse :: "jsontext \<Rightarrow> jsval option" where
  "JSON_parse NotJSON = None"
| "JSON_parse (JSON j) = Some j"

section \<open>storage.ts\<close>

subsection \<open>Storage\<close>

text \<open>
  The browser's \<^verbatim>\<open>localStorage\<close>: a map from keys to strings. The code runs in the browser
  (\<^verbatim>\<open>window\<close> is defined) and a write succeeds (no quota is exceeded), so the \<^verbatim>\<open>catch\<close> of
  \<^verbatim>\<open>Storage.set\<close> is not entered.
\<close>

type_synonym localStorage = "string \<rightharpoonup> jsontext"

text \<open>The regular expression \<^verbatim>\<open>/^\d{4}-\d{2}-\d{2}T\d{2}:\d{2}:\d{2}/\<close> of \<^verbatim>\<open>reviveDates\<close>.\<close>

datatype atom = Digit | Lit char

fun matches :: "atom \<Rightarrow> char \<Rightarrow> bool" where
  "matches Digit c = (c \<in> set ''0123456789'')"
| "matches (Lit d) c = (c = d)"

fun test_prefix :: "atom list \<Rightarrow> string \<Rightarrow> bool" where
  "test_prefix [] s = True"
| "test_prefix (a # as) [] = False"
| "test_prefix (a # as) (c # s) = (matches a c \<and> test_prefix as s)"

definition dateRegex :: "atom list" where
  "dateRegex =
    [Digit, Digit, Digit, Digit, Lit (CHR ''-''), Digit, Digit, Lit (CHR ''-''), Digit, Digit,
     Lit (CHR ''T''), Digit, Digit, Lit (CHR '':''), Digit, Digit, Lit (CHR '':''), Digit, Digit]"

fun reviveDates :: "runtime \<Rightarrow> jsval \<Rightarrow> jsval" where
  "reviveDates R VNull = VNull"
| "reviveDates R (VStr s) =
     (if test_prefix dateRegex s
      then (case Date_parse R s of Some t \<Rightarrow> VDate t | None \<Rightarrow> VStr s)
      else VStr s)"
| "reviveDates R (VArr xs) = VArr (map (reviveDates R) xs)"
| "reviveDates R (VObj kvs) = VObj (map (\<lambda>(k, v). (k, reviveDates R v)) kvs)"
| "reviveDates R (VDate t) = VObj []"
| "reviveDates R (VBool b) = VBool b"
| "reviveDates R (VNum x) = VNum x"

definition Storage_get :: "runtime \<Rightarrow> localStorage \<Rightarrow> string \<Rightarrow> jsval" where
  "Storage_get R ls key =
     (case ls key of
        None \<Rightarrow> VNull
      | Some item \<Rightarrow>
          (case JSON_parse item of
             None \<Rightarrow> VNull
           | Some parsed \<Rightarrow> reviveDates R parsed))"

definition Storage_set :: "runtime \<Rightarrow> localStorage \<Rightarrow> string \<Rightarrow> jsval \<Rightarrow> localStorage" where
  "Storage_set R ls key v = ls(key \<mapsto> JSON_stringify R v)"


subsection \<open>The record types of \<^verbatim>\<open>app/types\<close>\<close>

text \<open>
  The scheduler works on values the TypeScript code declares as \<^verbatim>\<open>Flashcard\<close> and
  \<^verbatim>\<open>UserProgress\<close>. They are records here; \<open>js_of_\<dots>\<close> is the object such a record
  stands for (its properties in the order of the interface, an optional property left out
  when it is \<^verbatim>\<open>undefined\<close>), and \<open>\<dots>_of_js\<close> reads a stored value at the declared type,
  \<open>None\<close> when the value does not have that type. A \<^verbatim>\<open>Date\<close> is its time value.
\<close>

record LifetimeStats =
  totalReviews :: real
  correctReviews :: real
  accuracy :: real
  longestStreak :: real
  totalCardsCreated :: real

record DailyStats =
  date :: string
  cardsStudied :: real
  correctAnswers :: real
  studyTime :: real
  newCards :: real

record UserProgress =
  totalCards :: real
  cardsLearned :: real
  cardsDue :: real
  streakDays :: real
  totalStudyTime :: real
  lastStudyDate :: "int option"
  dailyStats :: "DailyStats list"
  lifetimeStats :: LifetimeStats

record AlgorithmResult =
  easeFactor :: real
  interval :: real
  repetitions :: real
  nextReviewDate :: int

record Flashcard =
  id' :: string
  front :: string
  back' :: string
  category :: "string option"
  tags :: "string list"
  createdAt :: int
  updatedAt :: int
  easeFactor :: real
  interval :: real
  repetitions :: real
  nextReviewDate :: int
  totalReviews :: real
  correctReviews :: real
  streak :: real
  averageResponseTime :: "real option"

datatype Difficulty = AGAIN | HARD | GOOD | EASY

fun asNum :: "jsval option \<Rightarrow> real option" where
  "asNum (Some (VNum x)) = Some x"
| "asNum _ = None"

fun asStr :: "jsval option \<Rightarrow> string option" where
  "asStr (Some (VStr s)) = Some s"
| "asStr _ = None"

fun asDate :: "jsval option \<Rightarrow> int option" where
  "asDate (Some (VDate t)) = Some t"
| "asDate _ = None"

fun asArr :: "jsval option \<Rightarrow> jsval list option" where
  "asArr (Some (VArr xs)) = Some xs"
| "asArr _ = None"

fun optional :: "(jsval option \<Rightarrow> 'a option) \<Rightarrow> jsval option \<Rightarrow> 'a option option" where
  "optional as None = Some None"
| "optional as (Some v) = map_option Some (as (Some v))"

definition js_of_Flashcard :: "Flashcard \<Rightarrow> jsval" where
  "js_of_Flashcard c = VObj (
     [(''id'', VStr (id' c)), (''front'', VStr (front c)), (''back'', VStr (back' c))] @
     (case category c of None \<Rightarrow> [] | Some s \<Rightarrow> [(''category'', VStr s)]) @
     [(''tags'', VArr (map VStr (tags c))),
      (''createdAt'', VDate (createdAt c)),
      (''updatedAt'', VDate (updatedAt c)),
      (''easeFactor'', VNum (easeFactor c)),
      (''interval'', VNum (interval c)),
      (''repetitions'', VNum (repetitions c)),
      (''nextReviewDate'', VDate (nextReviewDate c)),
      (''totalReviews'', VNum (totalReviews c)),
      (''correctReviews'', VNum (correctReviews c)),
      (''streak'', VNum (streak c))] @
     (case averageResponseTime c of None \<Rightarrow> [] | Some x \<Rightarrow> [(''averageResponseTime'', VNum x)]))"

definition Flashcard_of_js :: "jsval \<Rightarrow> Flashcard option" where
  "Flashcard_of_js v = do {
     i \<leftarrow> asStr (getProp v ''id'');
     f \<leftarrow> asStr (getProp v ''front'');
     b \<leftarrow> asStr (getProp v ''back'');
     cat \<leftarrow> optional asStr (getProp v ''category'');
     ts \<leftarrow> asArr (getProp v ''tags'');
     tgs \<leftarrow> those (map (\<lambda>t. asStr (Some t)) ts);
     ca \<leftarrow> asDate (getProp v ''createdAt'');
     ua \<leftarrow> asDate (getProp v ''updatedAt'');
     ef \<leftarrow> asNum (getProp v ''easeFactor'');
     iv \<leftarrow> asNum (getProp v ''interval'');
     rp \<leftarrow> asNum (getProp v ''repetitions'');
     nr \<leftarrow> asDate (getProp v ''nextReviewDate'');
     tr \<leftarrow> asNum (getProp v ''totalReviews'');
     cr \<leftarrow> asNum (getProp v ''correctReviews'');
     sk \<leftarrow> asNum (getProp v ''streak'');
     art \<leftarrow> optional asNum (getProp v ''averageResponseTime'');
     Some \<lparr> id' = i, front = f, back' = b, category = cat, tags = tgs, createdAt = ca,
            updatedAt = ua, easeFactor = ef, interval = iv, repetitions = rp,
            nextReviewDate = nr, totalReviews = tr, correctReviews = cr, streak = sk,
            averageResponseTime = art \<rparr>
   }"

definition js_of_DailyStats :: "DailyStats \<Rightarrow> jsval" where
  "js_of_DailyStats s = VObj
     [(''date'', VStr (date s)),
      (''cardsStudied'', VNum (cardsStudied s)),
      (''correctAnswers'', VNum (correctAnswers s)),
      (''studyTime'', VNum (studyTime s)),
      (''newCards'', VNum (newCards s))]"

definition DailyStats_of_js :: "jsval \<Rightarrow> DailyStats option" where
  "DailyStats_of_js v = do {
     d \<leftarrow> asStr (getProp v ''date'');
     cs \<leftarrow> asNum (getProp v ''cardsStudied'');
     ca \<leftarrow> asNum (getProp v ''correctAnswers'');
     st \<leftarrow> asNum (getProp v ''studyTime'');
     nc \<leftarrow> asNum (getProp v ''newCards'');
     Some \<lparr> date = d, cardsStudied = cs, correctAnswers = ca, studyTime = st, newCards = nc \<rparr>
   }"

definition js_of_LifetimeStats :: "LifetimeStats \<Rightarrow> jsval" where
  "js_of_LifetimeStats l = VObj
     [(''totalReviews'', VNum (LifetimeStats.totalReviews l)),
      (''correctReviews'', VNum (LifetimeStats.correctReviews l)),
      (''accuracy'', VNum (accuracy l)),
      (''longestStreak'', VNum (longestStreak l)),
      (''totalCardsCreated'', VNum (totalCardsCreated l))]"

definition LifetimeStats_of_js :: "jsval \<Rightarrow> LifetimeStats option" where
  "LifetimeStats_of_js v = do {
     tr \<leftarrow> asNum (getProp v ''totalReviews'');
     cr \<leftarrow> asNum (getProp v ''correctReviews'');
     ac \<leftarrow> asNum (getProp v ''accuracy'');
     lo \<leftarrow> asNum (getProp v ''longestStreak'');
     tc \<leftarrow> asNum (getProp v ''totalCardsCreated'');
     Some \<lparr> LifetimeStats.totalReviews = tr, LifetimeStats.correctReviews = cr, accuracy = ac,
            longestStreak = lo, totalCardsCreated = tc \<rparr>
   }"

definition js_of_UserProgress :: "UserProgress \<Rightarrow> jsval" where
  "js_of_UserProgress p = VObj (
     [(''totalCards'', VNum (totalCards p)),
      (''cardsLearned'', VNum (cardsLearned p)),
      (''cardsDue'', VNum (cardsDue p)),
      (''streakDays'', VNum (streakDays p)),
      (''totalStudyTime'', VNum (totalStudyTime p))] @
     (case lastStudyDate p of None \<Rightarrow> [] | Some t \<Rightarrow> [(''lastStudyDate'', VDate t)]) @
     [(''dailyStats'', VArr (map js_of_DailyStats (dailyStats p))),
      (''lifetimeStats'', js_of_LifetimeStats (lifetimeStats p))])"

definition UserProgress_of_js :: "jsval \<Rightarrow> UserProgress option" where
  "UserProgress_of_js v = do {
     tc \<leftarrow> asNum (getProp v ''totalCards'');
     cl \<leftarrow> asNum (getProp v ''cardsLearned'');
     cd \<leftarrow> asNum (getProp v ''cardsDue'');
     sd \<leftarrow> asNum (getProp v ''streakDays'');
     tt \<leftarrow> asNum (getProp v ''totalStudyTime'');
     lsd \<leftarrow> optional asDate (getProp v ''lastStudyDate'');
     ds \<leftarrow> asArr (getProp v ''dailyStats'');
     dss \<leftarrow> those (map DailyStats_of_js ds);
     lo \<leftarrow> getProp v ''lifetimeStats'';
     lt \<leftarrow> LifetimeStats_of_js lo;
     Some \<lparr> totalCards = tc, cardsLearned = cl, cardsDue = cd, streakDays = sd,
            totalStudyTime = tt, lastStudyDate = lsd, dailyStats = dss, lifetimeStats = lt \<rparr>
   }"

text \<open>
  How a call ends when it does not return: \<open>TypeError\<close> is the exception JavaScript throws
  (a method of \<^verbatim>\<open>Array\<close> called on a stored value that is not an array, a property read
  from \<^verbatim>\<open>null\<close>); \<open>IllTyped\<close> says that a stored value does not have the type the code
  declares for it, where the behaviour of the code is not modelled.
\<close>

datatype failure = TypeError | IllTyped

definition as_Flashcards :: "jsval \<Rightarrow> failure + Flashcard list" where
  "as_Flashcards v =
     (case v of
        VArr xs \<Rightarrow> (case those (map Flashcard_of_js xs) of None \<Rightarrow> Inl IllTyped | Some cards \<Rightarrow> Inr cards)
      | _ \<Rightarrow> Inl TypeError)"

definition as_UserProgress :: "jsval \<Rightarrow> failure + UserProgress" where
  "as_UserProgress v = (case UserProgress_of_js v of None \<Rightarrow> Inl IllTyped | Some p \<Rightarrow> Inr p)"


subsection \<open>StorageKeys\<close>

definition CARDS :: string where "CARDS = ''spaced-repetition-cards''"
definition USER_PROGRESS :: string where "USER_PROGRESS = ''spaced-repetition-progress''"
definition STUDY_SESSIONS :: string where "STUDY_SESSIONS = ''spaced-repetition-sessions''"
definition CATEGORIES :: string where "CATEGORIES = ''spaced-repetition-categories''"
definition SETTINGS :: string where "SETTINGS = ''spaced-repetition-settings''"

subsection \<open>CardStorage\<close>

definition CardStorage_getAll :: "runtime \<Rightarrow> localStorage \<Rightarrow> jsval" where
  "CardStorage_getAll R ls = or_else (Storage_get R ls CARDS) (VArr [])"

definition CardStorage_save :: "runtime \<Rightarrow> localStorage \<Rightarrow> jsval \<Rightarrow> localStorage" where
  "CardStorage_save R ls cards = Storage_set R ls CARDS cards"

text \<open>
  \<^verbatim>\<open>CardStorage.add\<close>. The argument has the fields of a \<^verbatim>\<open>Flashcard\<close> but \<^verbatim>\<open>id\<close>,
  \<^verbatim>\<open>createdAt\<close> and \<^verbatim>\<open>updatedAt\<close>: the record's values for these three are not read.
  \<open>now\<close> is the clock (\<^verbatim>\<open>new Date()\<close>), \<open>newId\<close> the string \<^verbatim>\<open>generateId()\<close> returns.
  \<^verbatim>\<open>cards.push\<close> throws when the stored collection is not an array.
\<close>

definition CardStorage_add ::
  "runtime \<Rightarrow> int \<Rightarrow> string \<Rightarrow> localStorage \<Rightarrow> Flashcard \<Rightarrow> failure + (Flashcard \<times> localStorage)" where
  "CardStorage_add R now newId ls c =
     (case CardStorage_getAll R ls of
        VArr cards \<Rightarrow>
          (let newCard = c\<lparr>
                 id' := newId,
                 createdAt := now,
                 updatedAt := now,
                 easeFactor := 2.5,
                 interval := 1,
                 repetitions := 0,
                 nextReviewDate := now,
                 totalReviews := 0,
                 correctReviews := 0,
                 streak := 0 \<rparr>
           in Inr (newCard, CardStorage_save R ls (VArr (cards @ [js_of_Flashcard newCard]))))
      | _ \<Rightarrow> Inl TypeError)"

text \<open>\<^verbatim>\<open>Array.prototype.findIndex\<close> with a callback that may throw; \<open>None\<close> is \<open>-1\<close>.\<close>

fun findIndex :: "('a \<Rightarrow> failure + bool) \<Rightarrow> 'a list \<Rightarrow> failure + nat option" where
  "findIndex p [] = Inr None"
| "findIndex p (x # xs) =
     (case p x of
        Inl e \<Rightarrow> Inl e
      | Inr True \<Rightarrow> Inr (Some 0)
      | Inr False \<Rightarrow>
          (case findIndex p xs of Inl e \<Rightarrow> Inl e | Inr r \<Rightarrow> Inr (map_option Suc r)))"

text \<open>The callback \<^verbatim>\<open>card => card.id === id\<close>: reading a property of \<^verbatim>\<open>null\<close> throws.\<close>

definition hasId :: "string \<Rightarrow> jsval \<Rightarrow> failure + bool" where
  "hasId i c =
     (case c of VNull \<Rightarrow> Inl TypeError | _ \<Rightarrow> Inr (getProp c ''id'' = Some (VStr i)))"

text \<open>
  An object literal with spreads, \<^verbatim>\<open>{...a, ...b, k: v}\<close>: the properties are assigned from
  left to right; an assignment to a name the object has keeps the property's place, a new
  name goes last. The operands here are objects (spreading \<^verbatim>\<open>null\<close>, a number, a boolean or
  a date adds nothing; arrays and strings are not spread by the code).
\<close>

fun ownProps :: "jsval \<Rightarrow> (string \<times> jsval) list" where
  "ownProps (VObj kvs) = kvs"
| "ownProps _ = []"

definition spread :: "jsval list \<Rightarrow> jsval" where
  "spread vs = VObj (fold (\<lambda>(k, v). AList.update k v) (concat (map ownProps vs)) [])"

definition CardStorage_update ::
  "runtime \<Rightarrow> int \<Rightarrow> localStorage \<Rightarrow> string \<Rightarrow> jsval \<Rightarrow> failure + (jsval \<times> localStorage)" where
  "CardStorage_update R now ls i updates =
     (case CardStorage_getAll R ls of
        VArr cards \<Rightarrow>
          (case findIndex (hasId i) cards of
             Inl e \<Rightarrow> Inl e
           | Inr None \<Rightarrow> Inr (VNull, ls)
           | Inr (Some index) \<Rightarrow>
               (let updated = spread [cards ! index, updates, VObj [(''updatedAt'', VDate now)]];
                    cards' = cards[index := updated]
                in Inr (updated, CardStorage_save R ls (VArr cards'))))
      | _ \<Rightarrow> Inl TypeError)"

definition CardStorage_getDueCards ::
  "runtime \<Rightarrow> int \<Rightarrow> localStorage \<Rightarrow> failure + Flashcard list" where
  "CardStorage_getDueCards R now ls =
     (case as_Flashcards (CardStorage_getAll R ls) of
        Inl e \<Rightarrow> Inl e
      | Inr cards \<Rightarrow> Inr (filter (\<lambda>c. nextReviewDate c \<le> now) cards))"

definition CardStorage_getNewCards :: "runtime \<Rightarrow> localStorage \<Rightarrow> failure + Flashcard list" where
  "CardStorage_getNewCards R ls =
     (case as_Flashcards (CardStorage_getAll R ls) of
        Inl e \<Rightarrow> Inl e
      | Inr cards \<Rightarrow> Inr (filter (\<lambda>c. repetitions c = 0) cards))"

subsection \<open>ProgressStorage, SessionStorage, CategoryStorage, SettingsStorage\<close>

definition defaultProgress :: UserProgress where
  "defaultProgress = \<lparr>
     totalCards = 0,
     cardsLearned = 0,
     cardsDue = 0,
     streakDays = 0,
     totalStudyTime = 0,
     lastStudyDate = None,
     dailyStats = [],
     lifetimeStats = \<lparr>
       LifetimeStats.totalReviews = 0,
       LifetimeStats.correctReviews = 0,
       accuracy = 0,
       longestStreak = 0,
       totalCardsCreated = 0 \<rparr> \<rparr>"

definition ProgressStorage_get :: "runtime \<Rightarrow> localStorage \<Rightarrow> jsval" where
  "ProgressStorage_get R ls =
     or_else (Storage_get R ls USER_PROGRESS) (js_of_UserProgress defaultProgress)"

definition ProgressStorage_save :: "runtime \<Rightarrow> localStorage \<Rightarrow> jsval \<Rightarrow> localStorage" where
  "ProgressStorage_save R ls progress = Storage_set R ls USER_PROGRESS progress"

definition SessionStorage_getAll :: "runtime \<Rightarrow> localStorage \<Rightarrow> jsval" where
  "SessionStorage_getAll R ls = or_else (Storage_get R ls STUDY_SESSIONS) (VArr [])"

definition SessionStorage_save :: "runtime \<Rightarrow> localStorage \<Rightarrow> jsval \<Rightarrow> localStorage" where
  "SessionStorage_save R ls sessions = Storage_set R ls STUDY_SESSIONS sessions"

definition CategoryStorage_getAll :: "runtime \<Rightarrow> localStorage \<Rightarrow> jsval" where
  "CategoryStorage_getAll R ls = or_else (Storage_get R ls CATEGORIES) (VArr [])"

definition CategoryStorage_save :: "runtime \<Rightarrow> localStorage \<Rightarrow> jsval \<Rightarrow> localStorage" where
  "CategoryStorage_save R ls categories = Storage_set R ls CATEGORIES categories"

definition defaultSettings :: jsval where
  "defaultSettings = VObj
     [(''dailyGoal'', VNum 20),
      (''maxNewCards'', VNum 10),
      (''maxReviews'', VNum 50),
      (''showTimer'', VBool True),
      (''autoAdvance'', VBool False),
      (''shuffleCards'', VBool True)]"

definition SettingsStorage_get :: "runtime \<Rightarrow> localStorage \<Rightarrow> jsval" where
  "SettingsStorage_get R ls = or_else (Storage_get R ls SETTINGS) defaultSettings"

definition SettingsStorage_save :: "runtime \<Rightarrow> localStorage \<Rightarrow> jsval \<Rightarrow> localStorage" where
  "SettingsStorage_save R ls settings = Storage_set R ls SETTINGS settings"

subsection \<open>Utility functions\<close>

text \<open>\<^verbatim>\<open>date.toISOString().split('T')[0]\<close>: the text before the first \<open>T\<close>.\<close>

definition formatDate :: "runtime \<Rightarrow> int \<Rightarrow> string" where
  "formatDate R d = takeWhile (\<lambda>c. c \<noteq> CHR ''T'') (toISOString R d)"

definition getTodayString :: "runtime \<Rightarrow> int \<Rightarrow> string" where
  "getTodayString R now = formatDate R now"

subsection \<open>BackupStorage\<close>

definition exportData :: "runtime \<Rightarrow> int \<Rightarrow> localStorage \<Rightarrow> jsontext" where
  "exportData R now ls =
     (let data = VObj
        [(''cards'', CardStorage_getAll R ls),
         (''progress'', ProgressStorage_get R ls),
         (''sessions'', SessionStorage_getAll R ls),
         (''categories'', CategoryStorage_getAll R ls),
         (''settings'', SettingsStorage_get R ls),
         (''exportDate'', VStr (toISOString R now))]
      in JSON_stringify R data)"

text \<open>
  \<^verbatim>\<open>if (data.k) save(data.k)\<close> for one collection: nothing is written when the property
  is missing or falsy.
\<close>

definition import_key ::
  "jsval \<Rightarrow> string \<Rightarrow> (localStorage \<Rightarrow> jsval \<Rightarrow> localStorage) \<Rightarrow> localStorage \<Rightarrow> localStorage" where
  "import_key data k save ls =
     (case getProp data k of
        None \<Rightarrow> ls
      | Some v \<Rightarrow> if truthy v then save ls v else ls)"

text \<open>
  \<^verbatim>\<open>importData\<close> returns \<^verbatim>\<open>false\<close> when anything in its \<^verbatim>\<open>try\<close> block throws: the
  SyntaxError of \<^verbatim>\<open>JSON.parse\<close>, or the TypeError of \<^verbatim>\<open>data.cards\<close> when the document is
  \<^verbatim>\<open>null\<close>. Both happen before the first write.
\<close>

definition importData :: "runtime \<Rightarrow> jsontext \<Rightarrow> localStorage \<Rightarrow> bool \<times> localStorage" where
  "importData R jsonData ls =
     (case JSON_parse jsonData of
        None \<Rightarrow> (False, ls)
      | Some data \<Rightarrow>
          (case data of
             VNull \<Rightarrow> (False, ls)
           | _ \<Rightarrow>
              (let ls1 = import_key data ''cards'' (CardStorage_save R) ls;
                   ls2 = import_key data ''progress'' (ProgressStorage_save R) ls1;
                   ls3 = import_key data ''sessions'' (SessionStorage_save R) ls2;
                   ls4 = import_key data ''categories'' (CategoryStorage_save R) ls3;
                   ls5 = import_key data ''settings'' (SettingsStorage_save R) ls4
               in (True, ls5))))"


section \<open>spaced-repetition.ts\<close>

text \<open>
  Every function that reads the clock takes the time value \<open>now\<close> of \<^verbatim>\<open>new Date()\<close>; one call
  reads one time. \<^verbatim>\<open>setMinutes\<close> and \<^verbatim>\<open>setDate\<close> work on the local calendar: under a constant
  offset of the local time zone from UTC they move the time value by whole minutes and
  days. The day count passed to \<^verbatim>\<open>setDate\<close> is a whole number wherever the code calls it (a
  constant or a result of \<^verbatim>\<open>Math.round\<close>).
\<close>

definition Math_round :: "real \<Rightarrow> real" where
  "Math_round x = of_int (round x)"

definition addMinutes :: "int \<Rightarrow> int \<Rightarrow> int" where
  "addMinutes t n = t + n * 60000"

definition addDays :: "int \<Rightarrow> real \<Rightarrow> int" where
  "addDays t n = t + \<lfloor>n\<rfloor> * 86400000"

subsection \<open>SpacedRepetitionAlgorithm\<close>

definition calculateNext :: "int \<Rightarrow> Flashcard \<Rightarrow> Difficulty \<Rightarrow> AlgorithmResult" where
  "calculateNext now c difficulty =
     (let (easeFactor1, interval1, repetitions1) =
        (case difficulty of
           AGAIN \<Rightarrow> (easeFactor c, 0, 0)
         | HARD \<Rightarrow>
             (let ef = max 1.3 (easeFactor c - 0.15) in
              if repetitions c = 0 then (ef, 1, 1)
              else if repetitions c = 1 then (ef, 2, 2)
              else (ef, max 1 (Math_round (interval c * ef * 0.8)), repetitions c + 1))
         | GOOD \<Rightarrow>
             (if repetitions c = 0 then (easeFactor c, 1, 1)
              else if repetitions c = 1 then (easeFactor c, 6, 2)
              else (easeFactor c, Math_round (interval c * easeFactor c), repetitions c + 1))
         | EASY \<Rightarrow>
             (let ef = min 2.5 (easeFactor c + 0.1) in
              if repetitions c = 0 then (ef, 4, 1)
              else if repetitions c = 1 then (ef, 8, 2)
              else (ef, Math_round (interval c * ef * 1.3), repetitions c + 1)));
        nextReviewDate1 =
          (if difficulty = AGAIN then addMinutes now 1 else addDays now interval1)
      in \<lparr> AlgorithmResult.easeFactor = easeFactor1,
           AlgorithmResult.interval = interval1,
           AlgorithmResult.repetitions = repetitions1,
           AlgorithmResult.nextReviewDate = nextReviewDate1 \<rparr>)"

text \<open>
  \<^verbatim>\<open>existingStats.cardsStudied += 1\<close> and its neighbours change the element \<^verbatim>\<open>find\<close> returned,
  the first one that matches, in place.
\<close>

fun mutate_first :: "('a \<Rightarrow> bool) \<Rightarrow> ('a \<Rightarrow> 'a) \<Rightarrow> 'a list \<Rightarrow> 'a list" where
  "mutate_first P f [] = []"
| "mutate_first P f (x # xs) = (if P x then f x # xs else x # mutate_first P f xs)"

definition updateDailyStats ::
  "runtime \<Rightarrow> int \<Rightarrow> localStorage \<Rightarrow> bool \<Rightarrow> real \<Rightarrow> failure + localStorage" where
  "updateDailyStats R now ls correct responseTime =
     (let today = getTodayString R now in
      case as_UserProgress (ProgressStorage_get R ls) of
        Inl e \<Rightarrow> Inl e
      | Inr progress \<Rightarrow>
          (let dailyStats1 =
                 (case find (\<lambda>s. date s = today) (dailyStats progress) of
                    Some existingStats \<Rightarrow>
                      mutate_first (\<lambda>s. date s = today)
                        (\<lambda>s. s\<lparr> cardsStudied := cardsStudied s + 1,
                                correctAnswers := (if correct then correctAnswers s + 1 else correctAnswers s),
                                studyTime := studyTime s + responseTime \<rparr>)
                        (dailyStats progress)
                  | None \<Rightarrow>
                      dailyStats progress @
                        [\<lparr> date = today,
                           cardsStudied = 1,
                           correctAnswers = (if correct then 1 else 0),
                           studyTime = responseTime,
                           newCards = 0 \<rparr>]);
               stats = lifetimeStats progress;
               totalReviews1 = LifetimeStats.totalReviews stats + 1;
               correctReviews1 =
                 (if correct then LifetimeStats.correctReviews stats + 1
                  else LifetimeStats.correctReviews stats);
               accuracy1 =
                 (if totalReviews1 > 0 then (correctReviews1 / totalReviews1) * 100 else 0);
               progress1 = progress\<lparr>
                 dailyStats := dailyStats1,
                 lifetimeStats := stats\<lparr>
                   LifetimeStats.totalReviews := totalReviews1,
                   LifetimeStats.correctReviews := correctReviews1,
                   accuracy := accuracy1 \<rparr> \<rparr>
           in Inr (ProgressStorage_save R ls (js_of_UserProgress progress1))))"

text \<open>
  \<^verbatim>\<open>processReview\<close>. \<^verbatim>\<open>card.averageResponseTime ? \<dots> : responseTime\<close> takes the second branch
  when the property is \<^verbatim>\<open>undefined\<close> and when it is \<open>0\<close>.
\<close>

definition processReview ::
  "runtime \<Rightarrow> int \<Rightarrow> localStorage \<Rightarrow> Flashcard \<Rightarrow> Difficulty \<Rightarrow> real
     \<Rightarrow> failure + (Flashcard \<times> localStorage)" where
  "processReview R now ls c difficulty responseTime =
     (let result = calculateNext now c difficulty;
          totalReviews1 = totalReviews c + 1;
          correctReviews1 =
            (if difficulty \<noteq> AGAIN then correctReviews c + 1 else correctReviews c);
          streak1 = (if difficulty \<noteq> AGAIN then streak c + 1 else 0);
          averageResponseTime1 =
            (case averageResponseTime c of
               Some a \<Rightarrow>
                 if a \<noteq> 0 then (a * totalReviews c + responseTime) / totalReviews1
                 else responseTime
             | None \<Rightarrow> responseTime);
          updatedCard = c\<lparr>
            easeFactor := AlgorithmResult.easeFactor result,
            interval := AlgorithmResult.interval result,
            repetitions := AlgorithmResult.repetitions result,
            nextReviewDate := AlgorithmResult.nextReviewDate result,
            totalReviews := totalReviews1,
            correctReviews := correctReviews1,
            streak := streak1,
            averageResponseTime := Some averageResponseTime1,
            updatedAt := now \<rparr>
      in case CardStorage_update R now ls (id' c) (js_of_Flashcard updatedCard) of
           Inl e \<Rightarrow> Inl e
         | Inr (stored, ls1) \<Rightarrow>
             (case updateDailyStats R now ls1 (difficulty \<noteq> AGAIN) responseTime of
                Inl e \<Rightarrow> Inl e
              | Inr ls2 \<Rightarrow> Inr (updatedCard, ls2)))"

text \<open>
  \<^verbatim>\<open>shuffleArray\<close>. \<open>rnd k\<close> is the value of the \<open>k\<close>-th call of \<^verbatim>\<open>Math.random()\<close>, a number in
  \<open>[0, 1)\<close>, so that \<open>j \<le> i\<close>; the count of calls made so far is passed along. (For a number
  outside that range, which \<^verbatim>\<open>Math.random\<close> never returns, the step leaves the array as it
  is.)
\<close>

definition shuffle_step :: "(nat \<Rightarrow> real) \<Rightarrow> nat \<Rightarrow> 'a list \<times> nat \<Rightarrow> 'a list \<times> nat" where
  "shuffle_step rnd i st =
     (case st of (shuffled, k) \<Rightarrow>
        (let j = \<lfloor>rnd k * (real i + 1)\<rfloor> in
         if 0 \<le> j \<and> nat j < length shuffled
         then (shuffled[i := shuffled ! nat j, nat j := shuffled ! i], k + 1)
         else (shuffled, k + 1)))"

definition shuffleArray :: "(nat \<Rightarrow> real) \<Rightarrow> nat \<Rightarrow> 'a list \<Rightarrow> 'a list \<times> nat" where
  "shuffleArray rnd k array = fold (shuffle_step rnd) (rev [1..<length array]) (array, k)"

text \<open>
  \<^verbatim>\<open>shuffled.slice(0, maxCards)\<close>, for a whole number: a negative end counts from the end
  of the array.
\<close>

definition slice0 :: "'a list \<Rightarrow> int \<Rightarrow> 'a list" where
  "slice0 xs n = (if n < 0 then take (nat (int (length xs) + n)) xs else take (nat n) xs)"

text \<open>\<^verbatim>\<open>maxCards ? shuffled.slice(0, maxCards) : shuffled\<close>, with \<open>None\<close> for \<^verbatim>\<open>undefined\<close>.\<close>

definition capped :: "int option \<Rightarrow> 'a list \<Rightarrow> 'a list" where
  "capped maxCards shuffled =
     (case maxCards of
        None \<Rightarrow> shuffled
      | Some m \<Rightarrow> if m \<noteq> 0 then slice0 shuffled m else shuffled)"

definition getDueCards ::
  "runtime \<Rightarrow> int \<Rightarrow> (nat \<Rightarrow> real) \<Rightarrow> nat \<Rightarrow> localStorage \<Rightarrow> int option
     \<Rightarrow> failure + (Flashcard list \<times> nat)" where
  "getDueCards R now rnd k ls maxCards =
     (case CardStorage_getDueCards R now ls of
        Inl e \<Rightarrow> Inl e
      | Inr allCards \<Rightarrow>
          (case shuffleArray rnd k allCards of
             (shuffled, k1) \<Rightarrow> Inr (capped maxCards shuffled, k1)))"

definition getNewCards ::
  "runtime \<Rightarrow> (nat \<Rightarrow> real) \<Rightarrow> nat \<Rightarrow> localStorage \<Rightarrow> int option
     \<Rightarrow> failure + (Flashcard list \<times> nat)" where
  "getNewCards R rnd k ls maxCards =
     (case CardStorage_getNewCards R ls of
        Inl e \<Rightarrow> Inl e
      | Inr newCards' \<Rightarrow>
          (case shuffleArray rnd k newCards' of
             (shuffled, k1) \<Rightarrow> Inr (capped maxCards shuffled, k1)))"

text \<open>The body of the \<^verbatim>\<open>for\<close> loop of \<^verbatim>\<open>getStudyQueue\<close>, for one value of \<open>i\<close>.\<close>

definition queue_step :: "'a list \<Rightarrow> 'a list \<Rightarrow> nat \<Rightarrow> 'a list \<Rightarrow> 'a list" where
  "queue_step dueCards newCards' i queue =
     (let queue1 = (if i < length dueCards then queue @ [dueCards ! i] else queue);
          queue2 = (if i < length dueCards \<and> i + 1 < length dueCards
                    then queue1 @ [dueCards ! (i + 1)] else queue1);
          queue3 = (if i < length newCards' then queue2 @ [newCards' ! i] else queue2)
      in queue3)"

definition interleave :: "'a list \<Rightarrow> 'a list \<Rightarrow> 'a list" where
  "interleave dueCards newCards' =
     (let maxLength = max (length dueCards) (length newCards')
      in fold (queue_step dueCards newCards') [0..<maxLength] [])"

text \<open>\<^verbatim>\<open>getStudyQueue(maxNewCards = 10, maxReviews = 50)\<close>; \<open>None\<close> is an argument left out.\<close>

definition getStudyQueue ::
  "runtime \<Rightarrow> int \<Rightarrow> (nat \<Rightarrow> real) \<Rightarrow> nat \<Rightarrow> localStorage \<Rightarrow> int option \<Rightarrow> int option
     \<Rightarrow> failure + (Flashcard list \<times> nat)" where
  "getStudyQueue R now rnd k ls maxNewCards maxReviews =
     (let maxNewCards1 = (case maxNewCards of None \<Rightarrow> 10 | Some n \<Rightarrow> n);
          maxReviews1 = (case maxReviews of None \<Rightarrow> 50 | Some n \<Rightarrow> n)
      in case getDueCards R now rnd k ls (Some maxReviews1) of
           Inl e \<Rightarrow> Inl e
         | Inr (dueCards, k1) \<Rightarrow>
             (case getNewCards R rnd k1 ls (Some maxNewCards1) of
                Inl e \<Rightarrow> Inl e
              | Inr (newCards', k2) \<Rightarrow> Inr (interleave dueCards newCards', k2)))"

subsection \<open>StudyUtils\<close>








section \<open>What the claims speak of\<close>

text \<open>
  The ISO strings the engine writes must read back as the same instant whenever
  \<^verbatim>\<open>reviveDates\<close> takes them for a date. ECMAScript promises this of
  \<^verbatim>\<open>Date.parse(x.toISOString())\<close>.
\<close>

definition iso_round_trip :: "runtime \<Rightarrow> bool" where
  "iso_round_trip R \<longleftrightarrow>
     (\<forall>t. test_prefix dateRegex (toISOString R t) \<longrightarrow> Date_parse R (toISOString R t) = Some t)"






subsection \<open>A runtime and a storage to compute with\<close>

text \<open>
  An engine that knows nine instants, the midnights (UTC) from 29 December 2023 to
  6 January 2024. Any other string is an invalid date for it, and any other instant is
  written in a form outside the pattern of \<^verbatim>\<open>reviveDates\<close> (the form engines use for years
  beyond 9999).
\<close>

definition example_days :: "(int \<times> string) list" where
  "example_days =
    [(1703808000000, ''2023-12-29T00:00:00.000Z''),
     (1703894400000, ''2023-12-30T00:00:00.000Z''),
     (1703980800000, ''2023-12-31T00:00:00.000Z''),
     (1704067200000, ''2024-01-01T00:00:00.000Z''),
     (1704153600000, ''2024-01-02T00:00:00.000Z''),
     (1704240000000, ''2024-01-03T00:00:00.000Z''),
     (1704326400000, ''2024-01-04T00:00:00.000Z''),
     (1704412800000, ''2024-01-05T00:00:00.000Z''),
     (1704499200000, ''2024-01-06T00:00:00.000Z'')]"

definition example_runtime :: runtime where
  "example_runtime = \<lparr>
     Date_parse = map_of (map prod.swap example_days),
     toISOString = (\<lambda>t. case map_of example_days t of
                            Some s \<Rightarrow> s
                          | None \<Rightarrow> ''+275760-09-13T00:00:00.000Z'') \<rparr>"

text \<open>Today is 5 January 2024.\<close>

definition example_now :: int where
  "example_now = 1704412800000"

definition example_card :: "string \<Rightarrow> real \<Rightarrow> int \<Rightarrow> Flashcard" where
  "example_card i reps due = \<lparr>
     id' = i, front = ''Q'', back' = ''A'', category = None, tags = [],
     createdAt = 1703808000000, updatedAt = 1703808000000,
     easeFactor = 2.5, interval = 1, repetitions = reps, nextReviewDate = due,
     totalReviews = reps, correctReviews = reps, streak = reps,
     averageResponseTime = None \<rparr>"

text \<open>
  Five cards that were due on 1 January and have been reviewed three times, and one new
  card that is due on 6 January.
\<close>

definition example_cards :: "Flashcard list" where
  "example_cards =
    [example_card ''due0'' 3 1704067200000,
     example_card ''due1'' 3 1704067200000,
     example_card ''due2'' 3 1704067200000,
     example_card ''due3'' 3 1704067200000,
     example_card ''due4'' 3 1704067200000,
     example_card ''new0'' 0 1704499200000]"

definition example_storage :: localStorage where
  "example_storage =
     CardStorage_save example_runtime Map.empty (VArr (map js_of_Flashcard example_cards))"






section \<open>Facts about the model\<close>

lemmas key_defs = CARDS_def USER_PROGRESS_def STUDY_SESSIONS_def CATEGORIES_def SETTINGS_def

lemmas example_defs = example_days_def example_runtime_def example_now_def example_card_def
  example_cards_def example_storage_def

subsection \<open>What \<^verbatim>\<open>processReview\<close> returns, and when\<close>

lemma processReview_returns:
  assumes "processReview R now ls c d rt = Inr (c', ls')"
  shows "c' = c\<lparr>
            easeFactor := AlgorithmResult.easeFactor (calculateNext now c d),
            interval := AlgorithmResult.interval (calculateNext now c d),
            repetitions := AlgorithmResult.repetitions (calculateNext now c d),
            nextReviewDate := AlgorithmResult.nextReviewDate (calculateNext now c d),
            totalReviews := totalReviews c + 1,
            correctReviews := (if d \<noteq> AGAIN then correctReviews c + 1 else correctReviews c),
            streak := (if d \<noteq> AGAIN then streak c + 1 else 0),
            averageResponseTime := Some
              (case averageResponseTime c of
                 Some a \<Rightarrow> if a \<noteq> 0 then (a * totalReviews c + rt) / (totalReviews c + 1) else rt
               | None \<Rightarrow> rt),
            updatedAt := now \<rparr>"
  using assms unfolding processReview_def Let_def
  by (auto split: sum.splits prod.splits)

lemma findIndex_hasId: "VNull \<notin> set cards \<Longrightarrow> \<exists>r. findIndex (hasId i) cards = Inr r"
  by (induction cards) (auto simp: hasId_def split: jsval.splits bool.splits)

lemma CardStorage_update_returns:
  assumes "CardStorage_getAll R ls = VArr cards" and "VNull \<notin> set cards"
  shows "\<exists>r ls'. CardStorage_update R now ls i u = Inr (r, ls') \<and> ls' USER_PROGRESS = ls USER_PROGRESS"
proof -
  obtain r where "findIndex (hasId i) cards = Inr r" using findIndex_hasId [OF assms(2)] by blast
  then show ?thesis
    by (cases r) (simp_all add: CardStorage_update_def assms(1) Let_def CardStorage_save_def
        Storage_set_def key_defs)
qed

lemma updateDailyStats_returns:
  assumes "as_UserProgress (ProgressStorage_get R ls) = Inr p"
  shows "\<exists>ls'. updateDailyStats R now ls correct rt = Inr ls'"
  using assms by (simp add: updateDailyStats_def Let_def)

lemma ProgressStorage_get_same:
  "ls' USER_PROGRESS = ls USER_PROGRESS \<Longrightarrow> ProgressStorage_get R ls' = ProgressStorage_get R ls"
  by (simp add: ProgressStorage_get_def Storage_get_def)

text \<open>
  \<^verbatim>\<open>processReview\<close> returns whenever the stored cards are an array without \<^verbatim>\<open>null\<close> and the
  stored progress has its declared type.
\<close>

lemma processReview_total:
  assumes "CardStorage_getAll R ls = VArr cards" and "VNull \<notin> set cards"
    and "as_UserProgress (ProgressStorage_get R ls) = Inr p"
  shows "\<exists>c' ls'. processReview R now ls c d rt = Inr (c', ls')"
proof -
  let ?u = "js_of_Flashcard (c\<lparr>
            easeFactor := AlgorithmResult.easeFactor (calculateNext now c d),
            interval := AlgorithmResult.interval (calculateNext now c d),
            repetitions := AlgorithmResult.repetitions (calculateNext now c d),
            nextReviewDate := AlgorithmResult.nextReviewDate (calculateNext now c d),
            totalReviews := totalReviews c + 1,
            correctReviews := (if d \<noteq> AGAIN then correctReviews c + 1 else correctReviews c),
            streak := (if d \<noteq> AGAIN then streak c + 1 else 0),
            averageResponseTime := Some
              (case averageResponseTime c of
                 Some a \<Rightarrow> if a \<noteq> 0 then (a * totalReviews c + rt) / (totalReviews c + 1) else rt
               | None \<Rightarrow> rt),
            updatedAt := now \<rparr>)"
  obtain r ls1 where u: "CardStorage_update R now ls (id' c) ?u = Inr (r, ls1)"
    and same: "ls1 USER_PROGRESS = ls USER_PROGRESS"
    using CardStorage_update_returns [OF assms(1,2)] by blast
  have "as_UserProgress (ProgressStorage_get R ls1) = Inr p"
    using assms(3) same ProgressStorage_get_same [of ls1 ls R] by simp
  then obtain ls2 where "updateDailyStats R now ls1 (d \<noteq> AGAIN) rt = Inr ls2"
    using updateDailyStats_returns by blast
  then show ?thesis using u by (simp add: processReview_def Let_def)
qed

lemma example_getAll:
  "CardStorage_getAll example_runtime example_storage = VArr (map js_of_Flashcard example_cards)"
  by (simp add: Storage_get_def Storage_set_def JSON_stringify_def CardStorage_getAll_def
      CardStorage_save_def or_else_def key_defs example_defs js_of_Flashcard_def dateRegex_def)

lemma example_progress:
  "as_UserProgress (ProgressStorage_get example_runtime example_storage) = Inr defaultProgress"
  by (simp add: ProgressStorage_get_def Storage_get_def example_storage_def CardStorage_save_def
      Storage_set_def key_defs or_else_def as_UserProgress_def UserProgress_of_js_def
      js_of_UserProgress_def defaultProgress_def js_of_LifetimeStats_def LifetimeStats_of_js_def)

lemma example_processReview:
  "\<exists>c' ls'. processReview example_runtime example_now example_storage c d rt = Inr (c', ls')"
  by (rule processReview_total [OF example_getAll _ example_progress])
     (simp add: example_cards_def js_of_Flashcard_def)

text \<open>\<^verbatim>\<open>CardStorage.add\<close> returns whenever the stored cards are an array.\<close>

lemma CardStorage_add_returns:
  assumes "CardStorage_getAll R ls = VArr cards"
  shows "\<exists>newCard ls'. CardStorage_add R now newId ls c = Inr (newCard, ls')"
  using assms by (simp add: CardStorage_add_def Let_def)

lemma Flashcard_of_js_example:
  "Flashcard_of_js (js_of_Flashcard (example_card i r d)) = Some (example_card i r d)"
  by (simp add: js_of_Flashcard_def Flashcard_of_js_def example_card_def)

lemma example_Flashcards:
  "as_Flashcards (CardStorage_getAll example_runtime example_storage) = Inr example_cards"
  unfolding example_getAll
  by (simp add: as_Flashcards_def example_cards_def Flashcard_of_js_example)

subsection \<open>Progress read back from storage\<close>













section \<open>The claims\<close>

subsection \<open>C1: the study queue for five due cards and one new card\<close>

lemma interleave_5_1:
  "interleave [d0, d1, d2, d3, d4] [n0] = [d0, d1, n0, d1, d2, d2, d3, d3, d4, d4]"
  by (simp add: interleave_def queue_step_def upt_rec)

lemma shuffleArray_5: "shuffleArray (\<lambda>k. 0.9) k [a, b, c, d, e] = ([a, b, c, d, e], k + 4)"
  by (simp add: shuffleArray_def shuffle_step_def upt_rec)

lemma shuffleArray_1: "shuffleArray rnd k [a] = ([a], k)"
  by (simp add: shuffleArray_def)

text \<open>
  C1 says that with five due cards and one new card (\<open>maxReviews = 10\<close>,
  \<open>maxNewCards = 10\<close>) the queue of \<^verbatim>\<open>getStudyQueue\<close> is due0, due1, new0, due2, due3, due4,
  each due card once. The loop appends \<open>dueCards[i]\<close> and \<open>dueCards[i + 1]\<close> at step \<open>i\<close> and
  \<open>dueCards[i + 1]\<close> again at step \<open>i + 1\<close>: on the example storage, with random numbers
  that make both shuffles keep the stored order, the queue has ten entries and the cards
  due1 to due4 stand in it twice.
\<close>

theorem getStudyQueue_repeats_due_cards:
  "map_sum id (\<lambda>(queue, k). map id' queue)
     (getStudyQueue example_runtime example_now (\<lambda>k. 0.9) 0 example_storage (Some 10) (Some 10)) =
   Inr [''due0'', ''due1'', ''new0'', ''due1'', ''due2'', ''due2'', ''due3'', ''due3'',
        ''due4'', ''due4'']"
  by (simp add: getStudyQueue_def getDueCards_def getNewCards_def CardStorage_getDueCards_def
      CardStorage_getNewCards_def example_Flashcards example_cards_def example_now_def
      shuffleArray_5 shuffleArray_1 capped_def slice0_def interleave_5_1 example_card_def)

subsection \<open>C2: the ease factor stays in its range\<close>

text \<open>
  C2: for every card whose \<open>easeFactor\<close> is in \<open>[1.3, 2.5]\<close>, every difficulty grade and
  every response time, the card \<^verbatim>\<open>processReview\<close> returns has its \<open>easeFactor\<close> in
  \<open>[1.3, 2.5]\<close>.
\<close>

theorem processReview_easeFactor_bounds:
  assumes "1.3 \<le> easeFactor c" and "easeFactor c \<le> 2.5"
    and "processReview R now ls c d rt = Inr (c', ls')"
  shows "1.3 \<le> easeFactor c' \<and> easeFactor c' \<le> 2.5"
proof -
  have "easeFactor c' = AlgorithmResult.easeFactor (calculateNext now c d)"
    by (simp add: processReview_returns [OF assms(3)])
  with assms(1,2) show ?thesis
    by (cases d) (auto simp add: calculateNext_def Let_def max_def min_def)
qed

theorem processReview_easeFactor_bounds_witness:
  "\<exists>c' ls'. processReview example_runtime example_now example_storage
       (example_card ''due0'' 3 1704067200000) HARD 4 = Inr (c', ls')
     \<and> 1.3 \<le> easeFactor c' \<and> easeFactor c' \<le> 2.5"
proof -
  let ?c = "example_card ''due0'' 3 1704067200000"
  obtain c' ls' where
    r: "processReview example_runtime example_now example_storage ?c HARD 4 = Inr (c', ls')"
    using example_processReview by blast
  have "1.3 \<le> easeFactor ?c" "easeFactor ?c \<le> 2.5" by (simp_all add: example_card_def)
  from processReview_easeFactor_bounds [OF this r] r show ?thesis by blast
qed

subsection \<open>C3: the grade "again"\<close>




subsection \<open>C4: the average response time\<close>

text \<open>
  C4 says that \<^verbatim>\<open>processReview\<close> always sets \<open>averageResponseTime\<close> to
  \<open>(prevAvg * prevCount + newTime) / (prevCount + 1)\<close>, with \<open>prevAvg = 0\<close> when the card has
  none. The code takes the new time itself when the card has no average: for a card with
  no average and three reviews, and a response time of 4, the new average is 4 and not
  \<open>(0 * 3 + 4) / (3 + 1) = 1\<close>.
\<close>

theorem processReview_averageResponseTime_undefined_counterexample:
  "averageResponseTime (example_card ''due0'' 3 1704067200000) = None
   \<and> totalReviews (example_card ''due0'' 3 1704067200000) = 3
   \<and> \<not> isl (processReview example_runtime example_now example_storage
               (example_card ''due0'' 3 1704067200000) GOOD 4)
   \<and> averageResponseTime (fst (projr (processReview example_runtime example_now example_storage
               (example_card ''due0'' 3 1704067200000) GOOD 4))) = Some 4
   \<and> Some (4 :: real) \<noteq> Some ((0 * 3 + 4) / (3 + 1))"
proof -
  let ?c = "example_card ''due0'' 3 1704067200000"
  obtain c' ls' where
    r: "processReview example_runtime example_now example_storage ?c GOOD 4 = Inr (c', ls')"
    using example_processReview by blast
  show ?thesis
    unfolding r using processReview_returns [OF r] by (simp add: example_card_def)
qed

text \<open>
  C4 as amended: for every card with \<open>totalReviews \<ge> 0\<close>, \<^verbatim>\<open>processReview\<close> sets
  \<open>averageResponseTime\<close> to \<open>(prevAvg * prevCount + newTime) / (prevCount + 1)\<close> when the card
  has an average \<open>prevAvg\<close> that is not 0, and to \<open>newTime\<close> when it has none.
\<close>

theorem processReview_averageResponseTime:
  assumes "processReview R now ls c d rt = Inr (c', ls')" and "0 \<le> totalReviews c"
  shows "(\<forall>a. averageResponseTime c = Some a \<and> a \<noteq> 0 \<longrightarrow>
            averageResponseTime c' = Some ((a * totalReviews c + rt) / (totalReviews c + 1)))
       \<and> (averageResponseTime c = None \<longrightarrow> averageResponseTime c' = Some rt)"
  by (simp add: processReview_returns [OF assms(1)])

theorem processReview_averageResponseTime_witness:
  "\<exists>c' ls'. processReview example_runtime example_now example_storage
       ((example_card ''due0'' 3 1704067200000)\<lparr> averageResponseTime := Some 2 \<rparr>) GOOD 4 = Inr (c', ls')
     \<and> averageResponseTime c' = Some 2.5"
proof -
  let ?c = "(example_card ''due0'' 3 1704067200000)\<lparr> averageResponseTime := Some 2 \<rparr>"
  obtain c' ls' where
    r: "processReview example_runtime example_now example_storage ?c GOOD 4 = Inr (c', ls')"
    using example_processReview by blast
  have "0 \<le> totalReviews ?c" by (simp add: example_card_def)
  from processReview_averageResponseTime [OF r this] r show ?thesis
    by (simp add: example_card_def)
qed


subsection \<open>C5: export, then import\<close>

lemma toJSON_idem: "toJSON R (toJSON R v) = toJSON R v"
  by (induction v) (auto simp: case_prod_beta)

lemma revive_toJSON_revive:
  assumes "iso_round_trip R"
  shows "toJSON R (reviveDates R (toJSON R (reviveDates R j))) = toJSON R (reviveDates R j)"
  using assms
  by (induction j) (auto simp: case_prod_beta iso_round_trip_def split: option.splits)

lemma truthy_reviveDates: "truthy j \<Longrightarrow> truthy (reviveDates R j)"
  by (cases j) (auto split: option.splits)

lemma import_key_other:
  assumes "\<And>ls v. save ls v = Storage_set R ls key v" and "key \<noteq> key'"
  shows "import_key data k save ls key' = ls key'"
  using assms by (simp add: import_key_def Storage_set_def split: option.splits)

lemma importData_cards:
  assumes "JSON_parse doc = Some data" and "getProp data ''cards'' = Some v" and "truthy v"
  shows "importData R doc ls = (True, snd (importData R doc ls))"
    and "snd (importData R doc ls) CARDS = Some (JSON_stringify R v)"
proof -
  have nn: "data \<noteq> VNull" using assms(2) by auto
  show "importData R doc ls = (True, snd (importData R doc ls))"
    using assms(1) nn by (simp add: importData_def Let_def split: jsval.splits)
  have "snd (importData R doc ls) CARDS = import_key data ''cards'' (CardStorage_save R) ls CARDS"
    using assms(1) nn
    by (simp add: importData_def Let_def split: jsval.splits)
       (simp add: import_key_other [where R = R and key = USER_PROGRESS] 
          import_key_other [where R = R and key = STUDY_SESSIONS]
          import_key_other [where R = R and key = CATEGORIES]
          import_key_other [where R = R and key = SETTINGS]
          ProgressStorage_save_def SessionStorage_save_def CategoryStorage_save_def SettingsStorage_save_def key_defs)
  also have "\<dots> = Some (JSON_stringify R v)"
    using assms(2,3) by (simp add: import_key_def CardStorage_save_def Storage_set_def)
  finally show "snd (importData R doc ls) CARDS = Some (JSON_stringify R v)" .
qed

text \<open>
  C5: for every card collection, exporting the data with \<^verbatim>\<open>exportData\<close> and importing the
  document with \<^verbatim>\<open>importData\<close>, into any storage, succeeds and leaves a card collection that,
  read back with \<^verbatim>\<open>CardStorage.getAll\<close>, serialises to the same JSON as the collection
  that was exported. (The engine's ISO strings must read back as the same instant.)
\<close>

theorem export_import_round_trip:
  assumes "iso_round_trip R"
    and "CardStorage_getAll R ls = VArr cards"
    and "importData R (exportData R now ls) ls2 = (ok, ls')"
  shows "ok \<and> JSON_stringify R (CardStorage_getAll R ls') = JSON_stringify R (CardStorage_getAll R ls)"
proof -
  note rt = assms(1)
  let ?v = "toJSON R (VArr cards)"
  have p: "JSON_parse (exportData R now ls) = Some (toJSON R (VObj
        [(''cards'', CardStorage_getAll R ls),
         (''progress'', ProgressStorage_get R ls),
         (''sessions'', SessionStorage_getAll R ls),
         (''categories'', CategoryStorage_getAll R ls),
         (''settings'', SettingsStorage_get R ls),
         (''exportDate'', VStr (toISOString R now))]))" (is "_ = Some ?data")
    by (simp add: exportData_def JSON_stringify_def)
  have g: "getProp ?data ''cards'' = Some ?v" by (simp add: assms(2))
  have t: "truthy ?v" by simp
  note imp = importData_cards [OF p g t, of R ls2]
  from imp(1) assms(3) have ok: "ok" and ls': "ls' = snd (importData R (exportData R now ls) ls2)"
    by (metis prod.inject)+
  have stored: "ls' CARDS = Some (JSON (VArr (map (toJSON R) cards)))"
    using imp(2) ls' by (simp add: JSON_stringify_def toJSON_idem)
  have after: "CardStorage_getAll R ls' = reviveDates R (VArr (map (toJSON R) cards))"
    by (simp add: CardStorage_getAll_def Storage_get_def stored or_else_def)
  have before: "\<exists>j. VArr cards = reviveDates R j \<or> cards = []"
    using assms(2)
    by (auto simp: CardStorage_getAll_def Storage_get_def or_else_def split: option.splits if_splits)
       metis
  then obtain j where "VArr cards = reviveDates R j \<or> cards = []" ..
  then have "toJSON R (reviveDates R (toJSON R (VArr cards))) = toJSON R (VArr cards)"
  proof
    assume "VArr cards = reviveDates R j"
    then show ?thesis using revive_toJSON_revive [OF rt, of j] by metis
  next
    assume "cards = []"
    then show ?thesis by simp
  qed
  then show ?thesis using ok after by (simp add: JSON_stringify_def assms(2))
qed

lemma example_iso_round_trip: "iso_round_trip example_runtime"
  by (auto simp: iso_round_trip_def example_runtime_def example_days_def dateRegex_def
      split: if_splits)

theorem export_import_round_trip_witness:
  "iso_round_trip example_runtime
   \<and> CardStorage_getAll example_runtime example_storage = VArr (map js_of_Flashcard example_cards)
   \<and> fst (importData example_runtime (exportData example_runtime example_now example_storage) Map.empty)
   \<and> JSON_stringify example_runtime
        (CardStorage_getAll example_runtime
          (snd (importData example_runtime
                 (exportData example_runtime example_now example_storage) Map.empty))) =
      JSON_stringify example_runtime (CardStorage_getAll example_runtime example_storage)"
  using export_import_round_trip [OF example_iso_round_trip example_getAll surjective_pairing]
    example_iso_round_trip example_getAll
  by blast

subsection \<open>C6: the study streak\<close>






















subsection \<open>C7: the lifetime accuracy\<close>









subsection \<open>C8: importing what is not JSON\<close>

text \<open>
  C8: for every input that is not valid JSON, \<^verbatim>\<open>importData\<close> returns \<^verbatim>\<open>false\<close> and the
  storage, with all its collections, is as it was.
\<close>

theorem importData_malformed:
  assumes "JSON_parse jsonData = None"
  shows "importData R jsonData ls = (False, ls)"
  using assms by (simp add: importData_def)

theorem importData_malformed_witness:
  "JSON_parse NotJSON = None \<and> importData example_runtime NotJSON example_storage = (False, example_storage)"
  using importData_malformed [of NotJSON example_runtime example_storage] by simp

subsection \<open>C9: the card that \<^verbatim>\<open>CardStorage.add\<close> makes\<close>

text \<open>
  C9: for every record given to \<^verbatim>\<open>CardStorage.add\<close>, the card it returns has
  \<open>easeFactor = 2.5\<close>, \<open>interval = 1\<close>, \<open>repetitions = 0\<close>, \<open>totalReviews = 0\<close>,
  \<open>correctReviews = 0\<close>, \<open>streak = 0\<close> and \<open>nextReviewDate = now\<close>, whatever the record had
  for them, and this card is appended to the stored collection.
\<close>

theorem CardStorage_add_defaults:
  assumes "CardStorage_add R now newId ls c = Inr (newCard, ls')"
  shows "easeFactor newCard = 2.5 \<and> interval newCard = 1 \<and> repetitions newCard = 0
    \<and> totalReviews newCard = 0 \<and> correctReviews newCard = 0 \<and> streak newCard = 0
    \<and> nextReviewDate newCard = now
    \<and> (\<exists>cards. CardStorage_getAll R ls = VArr cards
          \<and> ls' = ls(CARDS \<mapsto> JSON_stringify R (VArr (cards @ [js_of_Flashcard newCard]))))"
  using assms
  by (auto simp: CardStorage_add_def Let_def CardStorage_save_def Storage_set_def split: jsval.splits)

theorem CardStorage_add_defaults_witness:
  "\<exists>newCard ls'. CardStorage_add example_runtime example_now ''k1'' example_storage
        ((example_card ''x'' 7 1704067200000)\<lparr> easeFactor := 1.3, interval := 30 \<rparr>) = Inr (newCard, ls')
     \<and> easeFactor newCard = 2.5 \<and> interval newCard = 1 \<and> repetitions newCard = 0
     \<and> totalReviews newCard = 0 \<and> correctReviews newCard = 0 \<and> streak newCard = 0
     \<and> nextReviewDate newCard = example_now"
proof -
  let ?c = "(example_card ''x'' 7 1704067200000)\<lparr> easeFactor := 1.3, interval := 30 \<rparr>"
  obtain newCard ls' where
    r: "CardStorage_add example_runtime example_now ''k1'' example_storage ?c = Inr (newCard, ls')"
    using CardStorage_add_returns [OF example_getAll] by blast
  from CardStorage_add_defaults [OF r] r show ?thesis by blast
qed

subsection \<open>C10: what a review leaves as it was\<close>

text \<open>
  C10: for every card, difficulty grade and response time, the card \<^verbatim>\<open>processReview\<close>
  returns has the \<open>id\<close>, \<open>front\<close>, \<open>back\<close>, \<open>category\<close>, \<open>tags\<close> and \<open>createdAt\<close> of the card
  it was given: it is that card with new values for, at most, the scheduling fields
  (\<open>easeFactor\<close>, \<open>interval\<close>, \<open>repetitions\<close>, \<open>nextReviewDate\<close>), the statistics
  (\<open>totalReviews\<close>, \<open>correctReviews\<close>, \<open>streak\<close>, \<open>averageResponseTime\<close>) and \<open>updatedAt\<close>.
\<close>

theorem processReview_frame:
  assumes "processReview R now ls c d rt = Inr (c', ls')"
  shows "id' c' = id' c \<and> front c' = front c \<and> back' c' = back' c \<and> category c' = category c
    \<and> tags c' = tags c \<and> createdAt c' = createdAt c
    \<and> (\<exists>ef iv rp nr tr cr sk art ua.
          c' = c\<lparr> easeFactor := ef, interval := iv, repetitions := rp, nextReviewDate := nr,
                   totalReviews := tr, correctReviews := cr, streak := sk,
                   averageResponseTime := art, updatedAt := ua \<rparr>)"
proof -
  have "\<exists>ef iv rp nr tr cr sk art ua.
          c' = c\<lparr> easeFactor := ef, interval := iv, repetitions := rp, nextReviewDate := nr,
                   totalReviews := tr, correctReviews := cr, streak := sk,
                   averageResponseTime := art, updatedAt := ua \<rparr>"
    by (subst processReview_returns [OF assms]) blast
  then show ?thesis by (simp add: processReview_returns [OF assms])
qed

theorem processReview_frame_witness:
  "\<exists>c' ls'. processReview example_runtime example_now example_storage
       (example_card ''due0'' 3 1704067200000) EASY 4 = Inr (c', ls')
     \<and> id' c' = ''due0'' \<and> front c' = ''Q'' \<and> back' c' = ''A'' \<and> category c' = None
     \<and> tags c' = [] \<and> createdAt c' = 1703808000000"
proof -
  let ?c = "example_card ''due0'' 3 1704067200000"
  obtain c' ls' where
    r: "processReview example_runtime example_now example_storage ?c EASY 4 = Inr (c', ls')"
    using example_processReview by blast
  from processReview_frame [OF r] r show ?thesis
    by (simp add: example_card_def)
qed

end
